theory Spec2Isabelle
  imports Complex_Main
begin

section \<open>Python strings\<close>

text \<open>
  A string is a list of characters, a character being a code point below 256. The string
  operations the gateway relies on are \<^verbatim>\<open>str.lower()\<close>, \<^verbatim>\<open>str.strip()\<close>,
  \<^verbatim>\<open>str.split()\<close> (no argument: split on runs of whitespace, no empty tokens) and the
  substring test \<^verbatim>\<open>p in s\<close>.

  Whitespace is the set of code points below 256 for which Python's \<^verbatim>\<open>str.isspace\<close>
  holds: the ASCII ones, the next-line control U+0085 and the no-break space U+00A0.
\<close>

definition is_space :: "char \<Rightarrow> bool" where
  "is_space c = (c \<in> set [CHR 0x09, CHR 0x0A, CHR 0x0B, CHR 0x0C, CHR 0x0D,
                            CHR 0x1C, CHR 0x1D, CHR 0x1E, CHR 0x1F, CHR 0x20,
                            CHR 0x85, CHR 0xA0])"

text \<open>
  The code points below 256 that \<^verbatim>\<open>str.lower()\<close> changes are the letters A to Z and
  U+00C0 to U+00DE without the multiplication sign U+00D7; each goes 32 places up.
\<close>

definition lower_char :: "char \<Rightarrow> char" where
  "lower_char c =
     (let n = (of_char c :: nat)
      in if (65 \<le> n \<and> n \<le> 90) \<or> (192 \<le> n \<and> n \<le> 222 \<and> n \<noteq> 215)
         then char_of (n + 32) else c)"

definition lower :: "string \<Rightarrow> string" where
  "lower s = map lower_char s"

definition strip :: "string \<Rightarrow> string" where
  "strip s = rev (dropWhile is_space (rev (dropWhile is_space s)))"

text \<open>\<open>split_acc cur s\<close>: \<open>cur\<close> is the token being read, reversed.\<close>

fun split_acc :: "string \<Rightarrow> string \<Rightarrow> string list" where
  "split_acc cur [] = (if cur = [] then [] else [rev cur])"
| "split_acc cur (c # cs) =
     (if is_space c
      then (if cur = [] then split_acc [] cs else rev cur # split_acc [] cs)
      else split_acc (c # cur) cs)"

definition split :: "string \<Rightarrow> string list" where
  "split s = split_acc [] s"

fun startswith :: "string \<Rightarrow> string \<Rightarrow> bool" where
  "startswith s [] = True"
| "startswith [] (p # ps) = False"
| "startswith (c # cs) (p # ps) = (c = p \<and> startswith cs ps)"

text \<open>\<open>py_in p s\<close> is Python's \<^verbatim>\<open>p in s\<close> on strings.\<close>

fun py_in :: "string \<Rightarrow> string \<Rightarrow> bool" where
  "py_in p [] = (p = [])"
| "py_in p (c # cs) = (startswith (c # cs) p \<or> py_in p cs)"

section \<open>Agent matcher\<close>

text \<open>
  \<^verbatim>\<open>AgentMatcher\<close> of \<^verbatim>\<open>backend/main.py\<close>. Its collaborators (the document store, the
  embedding service and the two similarity procedures) are outside the program; a
  \<open>world\<close> gives what each of them answers during one call, an exception being \<open>Inl\<close>.
  Every request sent to a collaborator is appended to \<open>calls\<close>.
\<close>

type_synonym exn = string
type_synonym embedding = "real list"

record row =
  row_agent_name :: string
  similarity :: real

text \<open>
  The values the matcher returns and caches. Python is dynamically typed: a cache hit
  returns whatever is stored under the key.
\<close>

datatype pyval =
    PyBool bool
  | PyTuple bool real
  | PyList "(string \<times> real) list"
  | PyStr string

record cache_entry =
  result :: pyval
  timestamp :: real

datatype ext_call =
    AgentDocuments string
  | Embedding string
  | MatchAgentDocuments embedding real int string
  | MatchAgentsBySimilarity embedding real int

record matcher =
  cache :: "string \<rightharpoonup> cache_entry"
  calls :: "ext_call list"

record world =
  agent_documents :: "string \<Rightarrow> exn + nat list"
  query_embedding :: "string \<Rightarrow> exn + embedding"
  match_agent_documents :: "embedding \<Rightarrow> real \<Rightarrow> int \<Rightarrow> string \<Rightarrow> exn + row list"
  match_agents_by_similarity :: "embedding \<Rightarrow> real \<Rightarrow> int \<Rightarrow> exn + row list"

definition cache_ttl :: real where
  "cache_ttl = 300"

text \<open>
  \<^verbatim>\<open>cached = self._cache.get(key)\<close> followed by
  \<^verbatim>\<open>if cached and (now - cached['timestamp']).total_seconds() < self._cache_ttl\<close>.
\<close>

definition cache_get :: "matcher \<Rightarrow> string \<Rightarrow> real \<Rightarrow> pyval option" where
  "cache_get m k now =
     (case cache m k of
        None \<Rightarrow> None
      | Some e \<Rightarrow> if now - timestamp e < cache_ttl then Some (result e) else None)"

definition cache_put :: "matcher \<Rightarrow> string \<Rightarrow> pyval \<Rightarrow> real \<Rightarrow> matcher" where
  "cache_put m k v now = m\<lparr>cache := (cache m)(k \<mapsto> \<lparr>result = v, timestamp = now\<rparr>)\<rparr>"

definition log_call :: "ext_call \<Rightarrow> matcher \<Rightarrow> matcher" where
  "log_call c m = m\<lparr>calls := calls m @ [c]\<rparr>"

definition basic_patterns :: "string list" where
  "basic_patterns =
     [''hello'', ''hi'', ''hey'', ''good morning'', ''good afternoon'', ''good evening'',
      ''who are you'', ''what are you'', ''introduce yourself'', ''tell me about yourself'',
      ''what do you do'', ''what can you help with'', ''how can you help'', ''what services'',
      ''greetings'', ''salutations'', ''yo'', ''howdy'', ''how are you'', ''how do you do'',
      ''nice to meet you'', ''pleased to meet you'', ''what is this'', ''explain this'',
      ''help'', ''assistance'', ''support'', ''info'', ''information'', ''thanks'',
      ''thank you'']"

definition is_basic :: "string \<Rightarrow> bool" where
  "is_basic user_query =
     (let query_lower = strip (lower user_query)
      in list_ex (\<lambda>pattern. py_in pattern query_lower) basic_patterns
         \<or> length (split query_lower) \<le> 3)"

definition agent_match_key :: "string \<Rightarrow> string \<Rightarrow> string" where
  "agent_match_key agent_name user_query = ''agent_match_'' @ agent_name @ ''_'' @ user_query"

text \<open>\<^verbatim>\<open>result.data[0]['similarity'] if result.data else 0.0\<close>\<close>

definition best_similarity :: "row list \<Rightarrow> real" where
  "best_similarity rows = (case rows of [] \<Rightarrow> 0 | r # _ \<Rightarrow> similarity r)"

text \<open>
  \<^verbatim>\<open>check_agent_match(agent_name, user_query, threshold)\<close>. \<open>t_lookup\<close> and \<open>t_store\<close> are
  the two readings of \<^verbatim>\<open>datetime.now()\<close>, at the cache lookup and at the cache store.
  The whole body is inside \<^verbatim>\<open>try ... except Exception: return False, 0.0\<close>.
\<close>

definition check_agent_match ::
  "world \<Rightarrow> matcher \<Rightarrow> string \<Rightarrow> string \<Rightarrow> real \<Rightarrow> real \<Rightarrow> real \<Rightarrow> pyval \<times> matcher" where
  "check_agent_match w m agent_name user_query threshold t_lookup t_store =
     (let m1 = log_call (AgentDocuments agent_name) m in
      case agent_documents w agent_name of
        Inl e \<Rightarrow> (PyTuple False 0, m1)
      | Inr docs \<Rightarrow>
          if docs = [] then (PyBool False, m1)
          else
            let cache_key = agent_match_key agent_name user_query in
            case cache_get m1 cache_key t_lookup of
              Some r \<Rightarrow> (r, m1)
            | None \<Rightarrow>
                let m2 = log_call (Embedding user_query) m1 in
                case query_embedding w user_query of
                  Inl e \<Rightarrow> (PyTuple False 0, m2)
                | Inr emb \<Rightarrow>
                    let m3 = log_call (MatchAgentDocuments emb threshold 1 agent_name) m2 in
                    case match_agent_documents w emb threshold 1 agent_name of
                      Inl e \<Rightarrow> (PyTuple False 0, m3)
                    | Inr rows \<Rightarrow>
                        let confidence = best_similarity rows;
                            res = (if is_basic user_query
                                   then PyTuple True
                                          (if confidence < 0.4 then 0.4 else confidence)
                                   else PyTuple (case rows of
                                                   [] \<Rightarrow> False
                                                 | x # _ \<Rightarrow> (similarity x \<ge> threshold))
                                                confidence)
                        in (res, cache_put m3 cache_key res t_store))"


subsection \<open>Best agents\<close>

text \<open>
  A Python dict keeps its keys in insertion order, and assigning to a key that is present
  keeps the key's place: an association list updated in place.
\<close>

fun set_item :: "('k \<times> 'v) list \<Rightarrow> 'k \<Rightarrow> 'v \<Rightarrow> ('k \<times> 'v) list" where
  "set_item [] k v = [(k, v)]"
| "set_item ((k', v') # kvs) k v =
     (if k' = k then (k, v) # kvs else (k', v') # set_item kvs k v)"










section \<open>JSON values and dicts\<close>

datatype json =
    JNull
  | JBool bool
  | JInt int
  | JStr string
  | JList "json list"
  | JObj "(string \<times> json) list"

type_synonym dict = "(string \<times> json) list"

text \<open>\<^verbatim>\<open>d.get(k, default)\<close>\<close>

definition get :: "dict \<Rightarrow> string \<Rightarrow> json \<Rightarrow> json" where
  "get d k dflt = (case map_of d k of None \<Rightarrow> dflt | Some v \<Rightarrow> v)"

text \<open>Python's truth value of a string that may be \<^verbatim>\<open>None\<close>.\<close>

definition truthy :: "string option \<Rightarrow> bool" where
  "truthy s = (case s of None \<Rightarrow> False | Some x \<Rightarrow> x \<noteq> [])"

text \<open>\<^verbatim>\<open>a or b\<close> on optional strings.\<close>

definition py_or :: "string option \<Rightarrow> string option \<Rightarrow> string option" where
  "py_or a b = (if truthy a then a else b)"

definition opt_json :: "string option \<Rightarrow> json" where
  "opt_json s = (case s of None \<Rightarrow> JNull | Some x \<Rightarrow> JStr x)"

section \<open>Conversational router\<close>




text \<open>
  What the outside gives during one request: the clock readings, a fresh uuid and the
  reply of the workflow engine to the handler's POST.
\<close>

record main_env =
  current_time :: real
  uuid4 :: string
  now :: real
  now_iso :: string
  engine_post :: "dict \<Rightarrow> exn + dict"














section \<open>Socket gateway and streaming fan-out\<close>

text \<open>
  The process-wide state of the gateway: the registry \<^verbatim>\<open>active_connections\<close> (connection
  id to socket), the log \<^verbatim>\<open>streaming_sessions\<close> and the set \<^verbatim>\<open>active_requests\<close>. A
  socket is a number; \<open>sent\<close> lists, in order, every frame written with
  \<^verbatim>\<open>send_json\<close> and the socket it was written to; \<open>dispatched\<close> lists the payloads of
  the tasks started with \<^verbatim>\<open>asyncio.create_task\<close> by the receive loop.
\<close>

record stream_update =
  su_type :: string
  su_user_id :: string
  su_agent_name :: "string option"
  su_agent_names :: "string option"
  su_message :: string
  su_progress :: int
  su_agent_response :: "string option"
  su_metadata :: "(string \<times> string) list"

record streaming_session =
  updates :: "stream_update list"
  complete :: bool

record gateway =
  active_connections :: "string \<rightharpoonup> nat"
  streaming_sessions :: "string \<rightharpoonup> streaming_session"
  active_requests :: "json set"
  sent :: "(nat \<times> dict) list"
  dispatched :: "dict list"

text \<open>
  The outside during one step: \<open>send_error ws\<close> is the exception a write to the socket
  raises, if it raises; the other fields are the clock (milliseconds, ISO text) and a
  fresh uuid.
\<close>

record io_env =
  send_error :: "nat \<Rightarrow> exn option"
  time_ms :: int
  time_ms2 :: int
  io_now_iso :: string
  io_uuid4 :: string

definition send_json :: "io_env \<Rightarrow> nat \<Rightarrow> dict \<Rightarrow> gateway \<Rightarrow> exn + gateway" where
  "send_json env ws frame g =
     (case send_error env ws of
        Some e \<Rightarrow> Inl e
      | None \<Rightarrow> Inr (g\<lparr>sent := sent g @ [(ws, frame)]\<rparr>))"

text \<open>\<^verbatim>\<open>update.metadata.get(k, '')\<close>\<close>

definition meta_get :: "stream_update \<Rightarrow> string \<Rightarrow> string" where
  "meta_get update k = (case map_of (su_metadata update) k of None \<Rightarrow> [] | Some v \<Rightarrow> v)"

definition meta_json :: "stream_update \<Rightarrow> json" where
  "meta_json update = JObj (map (\<lambda>(k, v). (k, JStr v)) (su_metadata update))"

definition connection_id_of :: "string \<Rightarrow> string \<Rightarrow> string" where
  "connection_id_of user_id session_id = user_id @ ''_'' @ session_id"

definition session_key_of :: "stream_update \<Rightarrow> string" where
  "session_key_of update = su_user_id update @ '':'' @ meta_get update ''request_id''"

text \<open>The log part of \<^verbatim>\<open>receive_stream_update\<close>: create, append, close.\<close>

definition record_update :: "stream_update \<Rightarrow> gateway \<Rightarrow> gateway" where
  "record_update update g =
     (let session_key = session_key_of update;
          session = (case streaming_sessions g session_key of
                       None \<Rightarrow> \<lparr>updates = [], complete = False\<rparr>
                     | Some s \<Rightarrow> s);
          session1 = session\<lparr>updates := updates session @ [update]\<rparr>;
          session2 = (if su_type update \<in> set [''complete'', ''final'']
                      then session1\<lparr>complete := True\<rparr> else session1)
      in g\<lparr>streaming_sessions := (streaming_sessions g)(session_key \<mapsto> session2)\<rparr>)"

definition status_frame :: "io_env \<Rightarrow> stream_update \<Rightarrow> dict" where
  "status_frame env update =
     [(''type'', JStr (su_type update)),
      (''agent'', opt_json (py_or (su_agent_name update) (su_agent_names update))),
      (''message'', JStr (su_message update)),
      (''progress'', JInt (su_progress update)),
      (''requestId'', opt_json (map_of (su_metadata update) ''request_id'')),
      (''metadata'', meta_json update),
      (''timestamp'', JInt (time_ms env))]"

definition agent_response_frame :: "io_env \<Rightarrow> stream_update \<Rightarrow> dict" where
  "agent_response_frame env update =
     [(''type'', JStr ''agent_response''),
      (''agent'', opt_json (su_agent_name update)),
      (''message'', opt_json (su_agent_response update)),
      (''requestId'', opt_json (map_of (su_metadata update) ''request_id'')),
      (''final'', JBool True),
      (''timestamp'', JInt (time_ms2 env))]"

definition stream_error :: "exn \<Rightarrow> dict" where
  "stream_error e = [(''status'', JStr ''error''), (''error'', JStr e)]"

text \<open>\<^verbatim>\<open>receive_stream_update(update)\<close>, the endpoint \<^verbatim>\<open>POST /api/stream\<close>.\<close>

definition receive_stream_update :: "io_env \<Rightarrow> stream_update \<Rightarrow> gateway \<Rightarrow> dict \<times> gateway" where
  "receive_stream_update env update g =
     (let connection_id = connection_id_of (su_user_id update) (meta_get update ''session_id'');
          received = [(''status'', JStr ''received''), (''connection_id'', JStr connection_id)];
          g1 = record_update update g
      in case active_connections g1 connection_id of
           None \<Rightarrow> (received, g1)
         | Some websocket \<Rightarrow>
             (case send_json env websocket (status_frame env update) g1 of
                Inl e \<Rightarrow> (stream_error e, g1)
              | Inr g2 \<Rightarrow>
                  if su_type update = ''complete'' \<and> truthy (su_agent_response update)
                  then (case send_json env websocket (agent_response_frame env update) g2 of
                          Inl e \<Rightarrow> (stream_error e, g2)
                        | Inr g3 \<Rightarrow> (received, g3))
                  else (received, g2)))"

text \<open>The frames written to a socket, in order.\<close>

definition frames_on :: "nat \<Rightarrow> gateway \<Rightarrow> dict list" where
  "frames_on ws g = map snd (filter (\<lambda>x. fst x = ws) (sent g))"

subsection \<open>The receive loop\<close>

text \<open>
  What one turn of the receive loop gets from
  \<^verbatim>\<open>asyncio.wait_for(websocket.receive_text(), timeout=60.0)\<close> and \<^verbatim>\<open>json.loads\<close>: the
  idle timeout, the disconnection of the peer, or a text that is valid JSON or is not.
\<close>

datatype recv = Timeout | Disconnect | Text "json option"

datatype loop = Continue | Break

definition hashable :: "json \<Rightarrow> bool" where
  "hashable j = (case j of JList _ \<Rightarrow> False | JObj _ \<Rightarrow> False | _ \<Rightarrow> True)"

definition ack_frame :: "io_env \<Rightarrow> json \<Rightarrow> dict" where
  "ack_frame env request_id =
     [(''type'', JStr ''ack''), (''requestId'', request_id),
      (''message'', JStr ''Message received, processing...''),
      (''timestamp'', JInt (time_ms env))]"

definition ping_frame :: "io_env \<Rightarrow> dict" where
  "ping_frame env = [(''type'', JStr ''ping''), (''timestamp'', JInt (time_ms env))]"

definition pong_frame :: "io_env \<Rightarrow> dict" where
  "pong_frame env = [(''type'', JStr ''pong''), (''timestamp'', JInt (time_ms env))]"

text \<open>
  The business part of a turn, from \<^verbatim>\<open>if request_id in active_requests\<close> on. After the
  ack is written the payload is built and
  \<^verbatim>\<open>asyncio.create_task(process_n8n_request_async(n8n_payload, websocket, request_id))\<close>
  is evaluated: the module neither defines nor imports \<^verbatim>\<open>process_n8n_request_async\<close>, so
  reading the name raises before any task is created. An exception (an unhashable id, a
  failed write, the undefined name) leaves the loop through the handler of the endpoint;
  the \<^verbatim>\<open>finally\<close> clause discards the id on every path that added it.
\<close>

definition handle_business ::
  "io_env \<Rightarrow> string \<Rightarrow> string \<Rightarrow> nat \<Rightarrow> dict \<Rightarrow> json \<Rightarrow> string \<Rightarrow> gateway \<Rightarrow> loop \<times> gateway" where
  "handle_business env user_id session_id websocket message_data request_id user_input g =
     (if \<not> hashable request_id then (Break, g)
      else if request_id \<in> active_requests g then (Continue, g)
      else
        let g1 = g\<lparr>active_requests := insert request_id (active_requests g)\<rparr> in
        case send_json env websocket (ack_frame env request_id) g1 of
          Inl e \<Rightarrow> (Break, g1\<lparr>active_requests := active_requests g1 - {request_id}\<rparr>)
        | Inr g2 \<Rightarrow> (Break, g2\<lparr>active_requests := active_requests g2 - {request_id}\<rparr>))"

text \<open>One turn of \<^verbatim>\<open>while True\<close> in \<^verbatim>\<open>websocket_endpoint\<close>.\<close>

definition ws_turn ::
  "io_env \<Rightarrow> string \<Rightarrow> string \<Rightarrow> nat \<Rightarrow> recv \<Rightarrow> gateway \<Rightarrow> loop \<times> gateway" where
  "ws_turn env user_id session_id websocket r g =
     (case r of
        Timeout \<Rightarrow>
          (case send_json env websocket (ping_frame env) g of
             Inl e \<Rightarrow> (Break, g)
           | Inr g1 \<Rightarrow> (Continue, g1))
      | Disconnect \<Rightarrow> (Break, g)
      | Text None \<Rightarrow> (Continue, g)
      | Text (Some (JObj message_data)) \<Rightarrow>
          let request_id = get message_data ''requestId'' (JStr (io_uuid4 env)) in
          (case get message_data ''message'' (JStr []) of
             JStr text \<Rightarrow>
               let user_input = strip text; type = map_of message_data ''type'' in
               if type = Some (JStr ''ping'')
               then (case send_json env websocket (pong_frame env) g of
                       Inl e \<Rightarrow> (Break, g)
                     | Inr g1 \<Rightarrow> (Continue, g1))
               else if type = Some (JStr ''pong'') then (Continue, g)
               else if user_input = [] \<or> type = Some (JStr ''connection_status'')
               then (Continue, g)
               else handle_business env user_id session_id websocket message_data
                      request_id user_input g
           | _ \<Rightarrow> (Break, g))
      | Text (Some _) \<Rightarrow> (Break, g))"

text \<open>The \<^verbatim>\<open>finally\<close> clause of the endpoint (the keepalive task is not modelled).\<close>

definition teardown :: "string \<Rightarrow> gateway \<Rightarrow> gateway" where
  "teardown connection_id g =
     g\<lparr>active_connections := (active_connections g)(connection_id := None)\<rparr>"

text \<open>The loop over what the socket delivers, each turn with its own outside.\<close>

fun ws_loop ::
  "string \<Rightarrow> string \<Rightarrow> nat \<Rightarrow> (io_env \<times> recv) list \<Rightarrow> gateway \<Rightarrow> gateway" where
  "ws_loop user_id session_id websocket [] g = g"
| "ws_loop user_id session_id websocket ((env, r) # rest) g =
     (case ws_turn env user_id session_id websocket r g of
        (Continue, g1) \<Rightarrow> ws_loop user_id session_id websocket rest g1
      | (Break, g1) \<Rightarrow> teardown (connection_id_of user_id session_id) g1)"

section \<open>Bounded full analysis\<close>

text \<open>
  \<^verbatim>\<open>full_website_analysis\<close>. The three subtasks run outside; the model takes how the wait
  ended. \<open>Gathered\<close>: \<^verbatim>\<open>asyncio.gather(..., return_exceptions=True)\<close> finished within
  25 seconds, each subtask with a returned dict or a raised exception. \<open>TimedOut\<close>:
  \<^verbatim>\<open>asyncio.wait_for\<close> raised \<^verbatim>\<open>asyncio.TimeoutError\<close>. Before it raises, \<^verbatim>\<open>wait_for\<close>
  cancels the gather, which cancels every task that has not finished, and waits until
  the gather is done: when the handler of the timeout runs, each task has finished or has
  been cancelled.
\<close>

record analysis_request =
  ar_url :: string
  ar_session_id :: "string option"
  ar_user_id :: "string option"

datatype outcome = Returned dict | Raised exn

datatype task_state = Finished outcome | Cancelled

datatype join =
    Gathered outcome outcome outcome
  | TimedOut task_state task_state task_state

text \<open>
  What an \<^verbatim>\<open>await\<close> raises: an exception of the class \<^verbatim>\<open>Exception\<close>, with its text, or
  \<^verbatim>\<open>asyncio.CancelledError\<close>, which is a \<^verbatim>\<open>BaseException\<close> and not an \<^verbatim>\<open>Exception\<close>.
\<close>

datatype raised = Error exn | CancelledError

definition error_result :: "exn \<Rightarrow> dict" where
  "error_result e = [(''status'', JStr ''error''), (''message'', JStr e)]"

text \<open>\<^verbatim>\<open>all_results[i] if not isinstance(all_results[i], Exception) else {...}\<close>\<close>

definition gathered :: "outcome \<Rightarrow> dict" where
  "gathered out = (case out of Returned d \<Rightarrow> d | Raised e \<Rightarrow> error_result e)"

text \<open>
  \<^verbatim>\<open>await task if task.done() else {"status": "timeout", ...}\<close> in the handler of the
  timeout. A task that has finished and a task that has been cancelled are both done, so
  the task is awaited: the value is what the task returned, or the await raises what the
  task raised, \<^verbatim>\<open>CancelledError\<close> for a cancelled task. The placeholder of the other
  branch is never the value.
\<close>

definition ready :: "task_state \<Rightarrow> raised + dict" where
  "ready t =
     (case t of
        Finished (Returned d) \<Rightarrow> Inr d
      | Finished (Raised e) \<Rightarrow> Inl (Error e)
      | Cancelled \<Rightarrow> Inl CancelledError)"

text \<open>\<^verbatim>\<open>results.get(key, {}).get("status")\<close>\<close>

definition status_of :: "dict \<Rightarrow> string \<Rightarrow> json option" where
  "status_of results key =
     (case map_of results key of
        None \<Rightarrow> None
      | Some (JObj d) \<Rightarrow> map_of d ''status''
      | Some _ \<Rightarrow> None)"

definition all_success :: "dict \<Rightarrow> bool" where
  "all_success results =
     list_all (\<lambda>key. status_of results key = Some (JStr ''success''))
       [''analysis'', ''screenshot'', ''favicon'']"

definition finish :: "dict \<Rightarrow> dict \<Rightarrow> dict \<Rightarrow> dict \<Rightarrow> dict" where
  "finish results a s f =
     (let results1 = set_item results ''analysis'' (JObj a);
          results2 = set_item results1 ''screenshot'' (JObj s);
          results3 = set_item results2 ''favicon'' (JObj f)
      in set_item results3 ''overall_status''
           (JStr (if all_success results3 then ''success'' else ''partial_success'')))"

definition failed :: "analysis_request \<Rightarrow> exn \<Rightarrow> dict" where
  "failed request e =
     [(''status'', JStr ''error''), (''message'', JStr e), (''url'', JStr (ar_url request))]"

text \<open>
  The three values put in \<^verbatim>\<open>results\<close>, or what is raised inside the inner \<^verbatim>\<open>try\<close>: the
  three awaits after a timeout are made in this order.
\<close>

definition joined :: "join \<Rightarrow> raised + dict \<times> dict \<times> dict" where
  "joined j =
     (case j of
        Gathered a s f \<Rightarrow> Inr (gathered a, gathered s, gathered f)
      | TimedOut a s f \<Rightarrow>
          (case ready a of
             Inl e \<Rightarrow> Inl e
           | Inr ra \<Rightarrow>
               (case ready s of
                  Inl e \<Rightarrow> Inl e
                | Inr rs \<Rightarrow>
                    (case ready f of
                       Inl e \<Rightarrow> Inl e
                     | Inr rf \<Rightarrow> Inr (ra, rs, rf)))))"

text \<open>
  The favicon request type declares \<^verbatim>\<open>session_id: str\<close> and \<^verbatim>\<open>user_id: str\<close>, the
  analysis request declares both optional: building the favicon request from a request
  that lacks one of them raises a validation error. The handler of the endpoint,
  \<^verbatim>\<open>except Exception\<close>, turns an exception into the error dict; \<^verbatim>\<open>CancelledError\<close> passes
  it and leaves the endpoint, which then returns no dict: the result \<open>None\<close>.
\<close>

definition full_website_analysis :: "io_env \<Rightarrow> analysis_request \<Rightarrow> join \<Rightarrow> dict option" where
  "full_website_analysis env request j =
     (let results = [(''url'', JStr (ar_url request)),
                     (''session_id'',
                        JStr (case ar_session_id request of
                                None \<Rightarrow> io_uuid4 env
                              | Some x \<Rightarrow> if x = [] then io_uuid4 env else x)),
                     (''timestamp'', JStr (io_now_iso env))]
      in if ar_session_id request = None \<or> ar_user_id request = None
         then Some (failed request ''validation error for WebsiteFaviconRequest'')
         else
           case joined j of
             Inl (Error e) \<Rightarrow> Some (failed request e)
           | Inl CancelledError \<Rightarrow> None
           | Inr (a, s, f) \<Rightarrow> Some (finish results a s f))"

section \<open>Sample inputs\<close>

text \<open>
  A document store in which only the agent \<^verbatim>\<open>presaleskb\<close> has documents, and a
  similarity procedure that finds one document, of similarity 0.2.
\<close>

definition w0 :: world where
  "w0 = \<lparr>agent_documents = (\<lambda>a. if a = ''presaleskb'' then Inr [1] else Inr []),
         query_embedding = (\<lambda>q. Inr [0.5]),
         match_agent_documents = (\<lambda>e th n a. Inr [\<lparr>row_agent_name = a, similarity = 0.2\<rparr>]),
         match_agents_by_similarity = (\<lambda>e th n. Inr [])\<rparr>"

text \<open>The same with the embedding service down.\<close>

definition w_down :: world where
  "w_down = w0\<lparr>query_embedding := (\<lambda>q. Inl ''embedding service unavailable'')\<rparr>"

text \<open>The same after the documents of the agent changed: the similarity is 0.7.\<close>

definition w_new :: world where
  "w_new = w0\<lparr>match_agent_documents :=
                 (\<lambda>e th n a. Inr [\<lparr>row_agent_name = a, similarity = 0.7\<rparr>])\<rparr>"

definition m0 :: matcher where
  "m0 = \<lparr>cache = Map.empty, calls = []\<rparr>"

definition q_long :: string where
  "q_long = ''compare the enterprise pricing tiers''"

text \<open>The matcher after a call that failed at time 0.\<close>

definition m_failed :: matcher where
  "m_failed = snd (check_agent_match w_down m0 ''presaleskb'' q_long 0.1 0 0)"

text \<open>The matcher after a call that stored its result at time 0, and after a hit at 299.\<close>

definition m_stored :: matcher where
  "m_stored = snd (check_agent_match w0 m0 ''presaleskb'' q_long 0.1 0 0)"

definition m_hit :: matcher where
  "m_hit = snd (check_agent_match w0 m_stored ''presaleskb'' q_long 0.1 299 299)"


subsection \<open>Requests to the router\<close>











subsection \<open>Frames and events\<close>

text \<open>
  A business frame: the text is a JSON object with the given request id and a message
  that is not blank, and its type is none of the three that the loop answers or skips.
\<close>

definition business_frame :: "dict \<Rightarrow> json \<Rightarrow> string \<Rightarrow> bool" where
  "business_frame message_data request_id text =
     (map_of message_data ''requestId'' = Some request_id
      \<and> map_of message_data ''message'' = Some (JStr text)
      \<and> strip text \<noteq> []
      \<and> map_of message_data ''type'' \<notin> set [Some (JStr ''ping''), Some (JStr ''pong''),
                                              Some (JStr ''connection_status'')])"

text \<open>
  An outside in which every write succeeds; a gateway with one open connection, of user
  \<^verbatim>\<open>u1\<close> and session \<^verbatim>\<open>s1\<close>, on socket 7; progress events of that user for request
  \<^verbatim>\<open>r1\<close>; the gateway after a terminal event; a frame of that user.
\<close>

definition io0 :: io_env where
  "io0 = \<lparr>send_error = (\<lambda>ws. None), time_ms = 1000, time_ms2 = 1001,
          io_now_iso = ''iso'', io_uuid4 = ''uuid-1''\<rparr>"

definition g_open :: gateway where
  "g_open = \<lparr>active_connections = [''u1_s1'' \<mapsto> 7], streaming_sessions = Map.empty,
             active_requests = {}, sent = [], dispatched = []\<rparr>"

definition update_of :: "string \<Rightarrow> string option \<Rightarrow> stream_update" where
  "update_of type answer =
     \<lparr>su_type = type, su_user_id = ''u1'', su_agent_name = Some ''presaleskb'',
      su_agent_names = None, su_message = ''step'', su_progress = 100,
      su_agent_response = answer,
      su_metadata = [(''session_id'', ''s1''), (''request_id'', ''r1'')]\<rparr>"

definition g_done :: gateway where
  "g_done = snd (receive_stream_update io0 (update_of ''complete'' (Some ''The answer'')) g_open)"

definition frame_hi :: dict where
  "frame_hi = [(''requestId'', JStr ''r1''), (''message'', JStr ''what is the price'')]"

subsection \<open>Analysis requests\<close>

text \<open>A subtask result counts as a success if its status is the string \<^verbatim>\<open>success\<close>.\<close>

definition success :: "dict \<Rightarrow> bool" where
  "success d = (map_of d ''status'' = Some (JStr ''success''))"

definition site_request :: analysis_request where
  "site_request = \<lparr>ar_url = ''https://example.com'', ar_session_id = Some ''s1'',
                   ar_user_id = Some ''u1''\<rparr>"

definition ok_result :: "string \<Rightarrow> dict" where
  "ok_result what = [(''status'', JStr ''success''), (''message'', JStr what)]"


subsection \<open>Candidates of an agent\<close>







section \<open>Basic queries\<close>



section \<open>Agents without documents\<close>

lemma q_long_not_basic: "\<not> is_basic q_long"
  unfolding q_long_def by code_simp

text \<open>
  C5. For an agent without indexed documents \<open>check_agent_match\<close> returns at once, for
  every query and threshold, after the one request to the document store: no embedding
  is computed and no similarity lookup is made. What it returns is the bare value False
  (\<^verbatim>\<open>return False\<close>), which is not the pair (False, 0.0) that the other paths return.
\<close>

theorem no_documents_returns_bare_false:
  assumes "agent_documents w a = Inr []"
  shows "check_agent_match w m a q threshold t_lookup t_store
           = (PyBool False, log_call (AgentDocuments a) m)
         \<and> fst (check_agent_match w m a q threshold t_lookup t_store) \<noteq> PyTuple False 0"
  using assms by (simp add: check_agent_match_def Let_def)

theorem no_documents_returns_bare_false_witness:
  "check_agent_match w0 m0 ''ghost'' q_long 0.3 0 0
     = (PyBool False, \<lparr>cache = Map.empty, calls = [AgentDocuments ''ghost'']\<rparr>)"
  using no_documents_returns_bare_false [of w0 "''ghost''" m0 q_long "0.3" 0 0]
  by (simp add: w0_def m0_def log_call_def)

section \<open>The matcher's cache\<close>

text \<open>
  C6, as stated, fails. A call during which the embedding service fails returns
  (False, 0.0) and stores nothing: the same call ten seconds later computes the
  embedding, looks the similarity up and returns another pair. And the age of an entry
  counts from the moment it was stored, not from the last call that read it: of two calls
  two seconds apart, at 299 and at 301 seconds after the store, the first reads the entry
  and the second computes again.
\<close>

theorem second_call_recomputes_counterexample:
  "fst (check_agent_match w_down m0 ''presaleskb'' q_long 0.1 0 0) = PyTuple False 0
   \<and> fst (check_agent_match w0 m_failed ''presaleskb'' q_long 0.1 10 10) = PyTuple True 0.2
   \<and> calls (snd (check_agent_match w0 m_failed ''presaleskb'' q_long 0.1 10 10))
       = calls m_failed @ [AgentDocuments ''presaleskb'', Embedding q_long,
                           MatchAgentDocuments [0.5] 0.1 1 ''presaleskb'']
   \<and> fst (check_agent_match w0 m_stored ''presaleskb'' q_long 0.1 299 299) = PyTuple True 0.2
   \<and> fst (check_agent_match w_new m_hit ''presaleskb'' q_long 0.1 301 301) = PyTuple True 0.7
   \<and> calls (snd (check_agent_match w_new m_hit ''presaleskb'' q_long 0.1 301 301))
       = calls m_hit @ [AgentDocuments ''presaleskb'', Embedding q_long,
                        MatchAgentDocuments [0.5] 0.1 1 ''presaleskb'']"
  by (simp add: m_failed_def m_hit_def m_stored_def check_agent_match_def Let_def
      w_down_def w_new_def w0_def m0_def log_call_def cache_get_def cache_put_def
      q_long_not_basic best_similarity_def agent_match_key_def cache_ttl_def)

text \<open>
  C6, amended. Let a call for agent \<open>a\<close> and query \<open>q\<close> compute and store its result at
  time \<open>t_store\<close>: the agent has documents, there is no valid entry, and neither the
  embedding nor the lookup fails. Then in any later state whose entry for (\<open>a\<close>, \<open>q\<close>) is
  still that one, a call made less than 300 seconds after \<open>t_store\<close>, while the document
  store still answers that the agent has documents, returns the same pair, whatever its
  threshold, and does nothing but ask the document store: no embedding, no lookup, no
  change of the cache.
\<close>

theorem cache_hit_within_ttl:
  assumes "agent_documents w1 a = Inr d1" and "d1 \<noteq> []"
    and "cache_get m (agent_match_key a q) t1 = None"
    and "query_embedding w1 q = Inr emb"
    and "match_agent_documents w1 emb th1 1 a = Inr rows"
    and "cache m' (agent_match_key a q)
           = cache (snd (check_agent_match w1 m a q th1 t1 t_store)) (agent_match_key a q)"
    and "agent_documents w2 a = Inr d2" and "d2 \<noteq> []"
    and "t2 - t_store < 300"
  shows "check_agent_match w2 m' a q th2 t2 t2'
           = (fst (check_agent_match w1 m a q th1 t1 t_store), log_call (AgentDocuments a) m')"
  using assms
  by (simp add: check_agent_match_def Let_def cache_get_def cache_put_def log_call_def
      cache_ttl_def split: option.splits)

theorem cache_hit_within_ttl_witness:
  "check_agent_match w_new m_stored ''presaleskb'' q_long 0.9 299 299
     = (PyTuple True 0.2, log_call (AgentDocuments ''presaleskb'') m_stored)"
proof -
  have "fst (check_agent_match w0 m0 ''presaleskb'' q_long 0.1 0 0) = PyTuple True 0.2"
    by (simp add: check_agent_match_def Let_def w0_def m0_def log_call_def cache_get_def
        cache_put_def q_long_not_basic best_similarity_def)
  then show ?thesis
    using cache_hit_within_ttl [of w0 "''presaleskb''" "[1]" m0 q_long 0 "[0.5]" "0.1"
        "[\<lparr>row_agent_name = ''presaleskb'', similarity = 0.2\<rparr>]" m_stored 0 w_new "[1]" 299
        "0.9" 299]
    by (simp add: w0_def w_new_def m0_def m_stored_def cache_get_def)
qed

section \<open>Request deduplication\<close>






lemma strip_price: "strip ''what is the price'' = ''what is the price''"
  by code_simp













section \<open>Streaming fan-out\<close>

lemma record_update_sent: "sent (record_update u g) = sent g"
  by (simp add: record_update_def Let_def)

lemma record_update_active_connections:
  "active_connections (record_update u g) = active_connections g"
  by (simp add: record_update_def Let_def)

lemma receive_stream_update_sessions:
  "streaming_sessions (snd (receive_stream_update env u g))
     = streaming_sessions (record_update u g)"
  by (simp add: receive_stream_update_def Let_def send_json_def
      split: option.splits sum.splits)

text \<open>
  C7, amended. A progress event of type \<^verbatim>\<open>complete\<close> that carries a non-empty answer,
  for a user and session with a registered connection whose socket accepts the writes,
  puts exactly two frames on that socket, in this order: the status frame, of type
  \<^verbatim>\<open>complete\<close>, then a frame of type \<^verbatim>\<open>agent_response\<close>, marked final, whose message
  is the answer. An event of type \<^verbatim>\<open>final\<close>, with an answer or without, puts the status
  frame alone on the socket. An event of either type closes the log of its streaming
  session: the event is appended and the session is marked complete.
\<close>

theorem terminal_event_frames:
  "(active_connections g (connection_id_of (su_user_id u) (meta_get u ''session_id'')) = Some ws
      \<and> send_error env ws = None
      \<and> su_type u = ''complete'' \<and> truthy (su_agent_response u) \<longrightarrow>
        sent (snd (receive_stream_update env u g))
          = sent g @ [(ws, status_frame env u), (ws, agent_response_frame env u)]
      \<and> map_of (status_frame env u) ''type'' = Some (JStr ''complete'')
      \<and> map_of (agent_response_frame env u) ''type'' = Some (JStr ''agent_response'')
      \<and> map_of (agent_response_frame env u) ''final'' = Some (JBool True)
      \<and> map_of (agent_response_frame env u) ''message''
          = Some (opt_json (su_agent_response u)))
   \<and> (active_connections g (connection_id_of (su_user_id u) (meta_get u ''session_id'')) = Some ws
      \<and> send_error env ws = None
      \<and> su_type u = ''final'' \<longrightarrow>
        sent (snd (receive_stream_update env u g)) = sent g @ [(ws, status_frame env u)]
      \<and> map_of (status_frame env u) ''type'' = Some (JStr ''final''))
   \<and> (su_type u = ''complete'' \<or> su_type u = ''final'' \<longrightarrow>
        streaming_sessions (snd (receive_stream_update env u g)) (session_key_of u)
          = Some \<lparr>updates = (case streaming_sessions g (session_key_of u) of
                                  None \<Rightarrow> [] | Some s \<Rightarrow> updates s) @ [u],
                  complete = True\<rparr>)"
proof -
  have a: "active_connections g (connection_id_of (su_user_id u) (meta_get u ''session_id'')) = Some ws
      \<and> send_error env ws = None
      \<and> su_type u = ''complete'' \<and> truthy (su_agent_response u) \<longrightarrow>
        sent (snd (receive_stream_update env u g))
          = sent g @ [(ws, status_frame env u), (ws, agent_response_frame env u)]
      \<and> map_of (status_frame env u) ''type'' = Some (JStr ''complete'')
      \<and> map_of (agent_response_frame env u) ''type'' = Some (JStr ''agent_response'')
      \<and> map_of (agent_response_frame env u) ''final'' = Some (JBool True)
      \<and> map_of (agent_response_frame env u) ''message''
          = Some (opt_json (su_agent_response u))"
    by (simp add: receive_stream_update_def Let_def send_json_def record_update_sent
        record_update_active_connections status_frame_def agent_response_frame_def)
  have b: "active_connections g (connection_id_of (su_user_id u) (meta_get u ''session_id'')) = Some ws
      \<and> send_error env ws = None
      \<and> su_type u = ''final'' \<longrightarrow>
        sent (snd (receive_stream_update env u g)) = sent g @ [(ws, status_frame env u)]
      \<and> map_of (status_frame env u) ''type'' = Some (JStr ''final'')"
    by (simp add: receive_stream_update_def Let_def send_json_def record_update_sent
        record_update_active_connections status_frame_def)
  have c: "su_type u = ''complete'' \<or> su_type u = ''final'' \<longrightarrow>
            streaming_sessions (snd (receive_stream_update env u g)) (session_key_of u)
              = Some \<lparr>updates = (case streaming_sessions g (session_key_of u) of
                                      None \<Rightarrow> [] | Some s \<Rightarrow> updates s) @ [u],
                      complete = True\<rparr>"
    by (auto simp: receive_stream_update_sessions record_update_def Let_def
        split: option.splits)
  from a b c show ?thesis by blast
qed

theorem terminal_event_frames_witness:
  "frames_on 7 g_done
     = [status_frame io0 (update_of ''complete'' (Some ''The answer'')),
        agent_response_frame io0 (update_of ''complete'' (Some ''The answer''))]
   \<and> frames_on 7 (snd (receive_stream_update io0 (update_of ''final'' (Some ''The answer''))
        g_open))
     = [status_frame io0 (update_of ''final'' (Some ''The answer''))]
   \<and> streaming_sessions (snd (receive_stream_update io0
        (update_of ''final'' (Some ''The answer'')) g_open)) ''u1:r1''
     = Some \<lparr>updates = [update_of ''final'' (Some ''The answer'')], complete = True\<rparr>"
proof -
  have a: "frames_on 7 g_done
     = [status_frame io0 (update_of ''complete'' (Some ''The answer'')),
        agent_response_frame io0 (update_of ''complete'' (Some ''The answer''))]"
    using terminal_event_frames [of g_open "update_of ''complete'' (Some ''The answer'')" 7 io0]
    by (simp add: g_done_def update_of_def truthy_def g_open_def connection_id_of_def
        meta_get_def io0_def frames_on_def)
  have b: "frames_on 7 (snd (receive_stream_update io0 (update_of ''final'' (Some ''The answer''))
        g_open))
     = [status_frame io0 (update_of ''final'' (Some ''The answer''))]
   \<and> streaming_sessions (snd (receive_stream_update io0
        (update_of ''final'' (Some ''The answer'')) g_open)) ''u1:r1''
     = Some \<lparr>updates = [update_of ''final'' (Some ''The answer'')], complete = True\<rparr>"
    using terminal_event_frames [of g_open "update_of ''final'' (Some ''The answer'')" 7 io0]
    by (simp add: update_of_def g_open_def connection_id_of_def meta_get_def io0_def
        frames_on_def session_key_of_def)
  from a b show ?thesis by simp
qed

text \<open>
  C7, as stated, fails for the other terminal type: an event of type \<^verbatim>\<open>final\<close> with
  an answer, for a registered connection, puts one frame on the socket, the status frame.
  The second frame is sent under \<^verbatim>\<open>update.type == "complete"\<close> only.
\<close>

theorem final_event_one_frame_counterexample:
  "sent (snd (receive_stream_update io0 (update_of ''final'' (Some ''The answer'')) g_open))
     = [(7, status_frame io0 (update_of ''final'' (Some ''The answer'')))]
   \<and> truthy (su_agent_response (update_of ''final'' (Some ''The answer'')))
   \<and> active_connections g_open
        (connection_id_of (su_user_id (update_of ''final'' (Some ''The answer'')))
           (meta_get (update_of ''final'' (Some ''The answer'')) ''session_id'')) = Some 7"
  by (simp add: receive_stream_update_def Let_def send_json_def record_update_sent
      record_update_active_connections update_of_def truthy_def g_open_def
      connection_id_of_def meta_get_def io0_def)

text \<open>
  C8, amended. Once a streaming session is marked complete, every later event for its key,
  of any type, is appended to its list of updates, which otherwise stays as it was, and
  the flag stays set; the sessions of the other keys are not touched.
\<close>

theorem completed_session_only_grows:
  assumes "streaming_sessions g (session_key_of u) = Some s" and "complete s"
  shows "streaming_sessions (snd (receive_stream_update env u g)) (session_key_of u)
           = Some \<lparr>updates = updates s @ [u], complete = True\<rparr>
       \<and> (\<forall>k. k \<noteq> session_key_of u \<longrightarrow>
             streaming_sessions (snd (receive_stream_update env u g)) k = streaming_sessions g k)"
  using assms
  by (simp add: receive_stream_update_sessions record_update_def Let_def)

lemma g_done_session:
  "streaming_sessions g_done ''u1:r1''
     = Some \<lparr>updates = [update_of ''complete'' (Some ''The answer'')], complete = True\<rparr>"
  by (simp add: g_done_def receive_stream_update_sessions record_update_def Let_def
      session_key_of_def update_of_def meta_get_def g_open_def)

theorem completed_session_only_grows_witness:
  "streaming_sessions (snd (receive_stream_update io0 (update_of ''progress'' None) g_done))
      ''u1:r1''
     = Some \<lparr>updates = [update_of ''complete'' (Some ''The answer''), update_of ''progress'' None],
             complete = True\<rparr>"
proof -
  have k: "session_key_of (update_of ''progress'' None) = ''u1:r1''"
    by (simp add: session_key_of_def update_of_def meta_get_def)
  show ?thesis
    using completed_session_only_grows [of g_done "update_of ''progress'' None"
        "\<lparr>updates = [update_of ''complete'' (Some ''The answer'')], complete = True\<rparr>" io0]
    by (simp add: k g_done_session)
qed

text \<open>
  C8, as stated, fails: the endpoint appends to the log without reading the flag. After a
  terminal event has marked the session complete, a progress event for the same key makes
  the list of updates one longer.
\<close>

theorem completed_session_mutated_counterexample:
  "streaming_sessions g_done ''u1:r1''
     = Some \<lparr>updates = [update_of ''complete'' (Some ''The answer'')], complete = True\<rparr>
   \<and> session_key_of (update_of ''progress'' None) = ''u1:r1''
   \<and> streaming_sessions (snd (receive_stream_update io0 (update_of ''progress'' None) g_done))
        ''u1:r1''
     = Some \<lparr>updates = [update_of ''complete'' (Some ''The answer''),
                          update_of ''progress'' None],
             complete = True\<rparr>"
  by (simp add: receive_stream_update_sessions record_update_def Let_def g_done_session
      session_key_of_def update_of_def meta_get_def)

section \<open>Duplicate frames on a socket\<close>

lemma handle_business_fresh:
  assumes "hashable rid" and "rid \<notin> active_requests g" and "send_error env ws = None"
  shows "handle_business env uid sid ws md rid input g
           = (Break, g\<lparr>sent := sent g @ [(ws, ack_frame env rid)]\<rparr>)"
  using assms
  by (simp add: handle_business_def Let_def send_json_def)

lemma ws_turn_business:
  assumes "business_frame md rid text"
    and "hashable rid" and "rid \<notin> active_requests g" and "send_error env ws = None"
  shows "ws_turn env uid sid ws (Text (Some (JObj md))) g
           = (Break, g\<lparr>sent := sent g @ [(ws, ack_frame env rid)]\<rparr>)"
  using assms
  by (simp add: ws_turn_def business_frame_def get_def Let_def handle_business_fresh)

text \<open>
  C4. A business frame whose request id is not in \<^verbatim>\<open>active_requests\<close> is acknowledged;
  then the undefined name raises, the \<^verbatim>\<open>finally\<close> clause discards the id, and the
  exception ends the loop: the connection is removed from the registry and what the socket
  delivers next is never read. Of two business frames with the same request id, one after
  the other on one connection, the first gets its ack and the second gets nothing, but
  not because the set holds the id, which it does not any more; and no task is
  dispatched, for neither.
\<close>

theorem first_business_frame_ends_loop:
  assumes "business_frame md rid text"
    and "hashable rid" and "rid \<notin> active_requests g"
    and "send_error env1 ws = None"
  shows "ws_loop uid sid ws ((env1, Text (Some (JObj md))) # (env2, Text (Some (JObj md))) # rest) g
           = teardown (connection_id_of uid sid) (g\<lparr>sent := sent g @ [(ws, ack_frame env1 rid)]\<rparr>)
       \<and> dispatched (ws_loop uid sid ws
             ((env1, Text (Some (JObj md))) # (env2, Text (Some (JObj md))) # rest) g)
           = dispatched g
       \<and> active_requests (ws_loop uid sid ws
             ((env1, Text (Some (JObj md))) # (env2, Text (Some (JObj md))) # rest) g)
           = active_requests g"
  using assms
  by (simp add: ws_turn_business teardown_def)

theorem first_business_frame_ends_loop_witness:
  "dispatched (ws_loop ''u1'' ''s1'' 7
      [(io0, Text (Some (JObj frame_hi))), (io0, Text (Some (JObj frame_hi)))] g_open) = []
   \<and> frames_on 7 (ws_loop ''u1'' ''s1'' 7
      [(io0, Text (Some (JObj frame_hi))), (io0, Text (Some (JObj frame_hi)))] g_open)
     = [ack_frame io0 (JStr ''r1'')]
   \<and> active_connections (ws_loop ''u1'' ''s1'' 7
      [(io0, Text (Some (JObj frame_hi))), (io0, Text (Some (JObj frame_hi)))] g_open) ''u1_s1''
     = None"
proof -
  have "business_frame frame_hi (JStr ''r1'') ''what is the price''"
    by (simp add: business_frame_def frame_hi_def strip_price)
  then show ?thesis
    using first_business_frame_ends_loop [of frame_hi "JStr ''r1''" "''what is the price''"
        g_open io0 7 "''u1''" "''s1''" io0 "[]"]
    by (simp add: hashable_def g_open_def io0_def frames_on_def teardown_def
        connection_id_of_def)
qed

section \<open>Bounded full analysis: the aggregate\<close>

lemma map_of_set_item: "map_of (set_item kvs k v) = (map_of kvs)(k \<mapsto> v)"
  by (induction kvs) (auto simp: fun_eq_iff)

lemma map_of_finish:
  "map_of (finish results a s f)
     = (map_of results)(''analysis'' \<mapsto> JObj a, ''screenshot'' \<mapsto> JObj s,
          ''favicon'' \<mapsto> JObj f,
          ''overall_status'' \<mapsto> JStr (if success a \<and> success s \<and> success f
                                       then ''success'' else ''partial_success''))"
  by (simp add: finish_def Let_def map_of_set_item all_success_def status_of_def success_def)

lemma joined_cancelled:
  assumes "Cancelled \<in> set [ta, ts, tf]"
  shows "joined (TimedOut ta ts tf) = Inl CancelledError
       \<or> (\<exists>e. joined (TimedOut ta ts tf) = Inl (Error e))"
  using assms
  by (auto simp: joined_def ready_def split: task_state.splits outcome.splits)

lemma joined_cancelled_no_raise:
  assumes "Cancelled \<in> set [ta, ts, tf]" and "\<forall>e. Finished (Raised e) \<notin> set [ta, ts, tf]"
  shows "joined (TimedOut ta ts tf) = Inl CancelledError"
  using assms
  by (auto simp: joined_def ready_def split: task_state.splits outcome.splits)

text \<open>
  C9. For a request that carries a session id and a user id. When the gather finishes in
  time, the result holds the three values under their keys, and its overall status is
  \<^verbatim>\<open>success\<close> if all three have the status \<^verbatim>\<open>success\<close> and \<^verbatim>\<open>partial_success\<close>
  otherwise. When the deadline expires, some task has been cancelled: the endpoint
  awaits it, \<^verbatim>\<open>CancelledError\<close> leaves the endpoint and no result is returned, unless a
  task that raised is awaited first, and then the result is the error dict. In no case
  after the deadline does the result hold an overall status, the value of a finished
  task or a timeout placeholder.
\<close>

theorem deadline_leaves_no_result:
  assumes "ar_session_id request \<noteq> None" and "ar_user_id request \<noteq> None"
  shows "(Cancelled \<in> set [ta, ts, tf] \<and> (\<forall>e. Finished (Raised e) \<notin> set [ta, ts, tf])
            \<longrightarrow> full_website_analysis env request (TimedOut ta ts tf) = None)
       \<and> (Cancelled \<in> set [ta, ts, tf]
            \<longrightarrow> full_website_analysis env request (TimedOut ta ts tf) = None
                \<or> (\<exists>e. full_website_analysis env request (TimedOut ta ts tf)
                          = Some (failed request e)))
       \<and> (Cancelled \<in> set [ta, ts, tf]
            \<longrightarrow> (\<forall>res. full_website_analysis env request (TimedOut ta ts tf) = Some res
                  \<longrightarrow> map_of res ''overall_status'' = None \<and> map_of res ''analysis'' = None
                      \<and> map_of res ''screenshot'' = None \<and> map_of res ''favicon'' = None))
       \<and> (\<exists>res. full_website_analysis env request (Gathered a s f) = Some res
              \<and> map_of res ''analysis'' = Some (JObj (gathered a))
              \<and> map_of res ''screenshot'' = Some (JObj (gathered s))
              \<and> map_of res ''favicon'' = Some (JObj (gathered f))
              \<and> map_of res ''overall_status''
                  = Some (JStr (if success (gathered a) \<and> success (gathered s)
                                    \<and> success (gathered f)
                                then ''success'' else ''partial_success'')))"
proof -
  have 1: "full_website_analysis env request (TimedOut ta ts tf) = None"
    if "Cancelled \<in> set [ta, ts, tf]" "\<forall>e. Finished (Raised e) \<notin> set [ta, ts, tf]"
    using assms joined_cancelled_no_raise [OF that]
    by (auto simp: full_website_analysis_def Let_def)
  have 2: "full_website_analysis env request (TimedOut ta ts tf) = None
      \<or> (\<exists>e. full_website_analysis env request (TimedOut ta ts tf) = Some (failed request e))"
    if "Cancelled \<in> set [ta, ts, tf]"
    using assms joined_cancelled [OF that]
    by (auto simp: full_website_analysis_def Let_def)
  have 3: "\<exists>res. full_website_analysis env request (Gathered a s f) = Some res
              \<and> map_of res ''analysis'' = Some (JObj (gathered a))
              \<and> map_of res ''screenshot'' = Some (JObj (gathered s))
              \<and> map_of res ''favicon'' = Some (JObj (gathered f))
              \<and> map_of res ''overall_status''
                  = Some (JStr (if success (gathered a) \<and> success (gathered s)
                                    \<and> success (gathered f)
                                then ''success'' else ''partial_success''))"
    using assms
    by (auto simp: full_website_analysis_def Let_def joined_def map_of_finish)
  have 4: "map_of res ''overall_status'' = None \<and> map_of res ''analysis'' = None
      \<and> map_of res ''screenshot'' = None \<and> map_of res ''favicon'' = None"
    if "Cancelled \<in> set [ta, ts, tf]"
      "full_website_analysis env request (TimedOut ta ts tf) = Some res" for res
    using 2 [OF that(1)] that(2) by (auto simp: failed_def)
  from 1 2 3 4 show ?thesis by blast
qed

theorem deadline_leaves_no_result_witness:
  "full_website_analysis io0 site_request
      (TimedOut (Finished (Returned (ok_result ''analysis'')))
                (Finished (Returned (ok_result ''screenshot''))) Cancelled) = None
   \<and> (\<exists>res. full_website_analysis io0 site_request
          (Gathered (Returned (ok_result ''analysis'')) (Returned (ok_result ''screenshot''))
             (Raised ''no icon'')) = Some res
        \<and> map_of res ''overall_status'' = Some (JStr ''partial_success''))"
proof -
  have i: "ar_session_id site_request \<noteq> None" "ar_user_id site_request \<noteq> None"
    by (simp_all add: site_request_def)
  have n: "\<not> success (gathered (Raised ''no icon''))"
    by (simp add: success_def gathered_def error_result_def)
  note t = deadline_leaves_no_result [OF i,
      of "Finished (Returned (ok_result ''analysis''))"
      "Finished (Returned (ok_result ''screenshot''))" Cancelled io0
      "Returned (ok_result ''analysis'')" "Returned (ok_result ''screenshot'')"
      "Raised ''no icon''"]
  have a: "full_website_analysis io0 site_request
      (TimedOut (Finished (Returned (ok_result ''analysis'')))
                (Finished (Returned (ok_result ''screenshot''))) Cancelled) = None"
    using t by simp
  have b: "\<exists>res. full_website_analysis io0 site_request
          (Gathered (Returned (ok_result ''analysis'')) (Returned (ok_result ''screenshot''))
             (Raised ''no icon'')) = Some res
        \<and> map_of res ''overall_status'' = Some (JStr ''partial_success'')"
    using t n by auto
  from a b show ?thesis by simp
qed

section \<open>Best agents: never empty\<close>






















end
